theory Spec2Isabelle
  imports Main "HOL-Library.AList"
begin

section \<open>Python values and errors\<close>

text \<open>
  The values that flow through \<open>rklauncher/__init__.py\<close> are Python strings and
  \<open>None\<close>. A \<open>pyval\<close> is such a value: \<open>None\<close> is Python's \<open>None\<close>,
  \<open>Some s\<close> the string \<open>s\<close>.
\<close>

type_synonym pyval = "string option"

text \<open>
  Every exception the module raises or lets through is a constructor. The three bare
  \<open>Exception(...)\<close> raises are told apart by their message:
  \<^item> \<open>ValueError\<close>: \<open>RemoteKernel.__init__\<close>, "Cannot initialize RemoteKernel with params";
  \<^item> \<open>Exception_already_exists\<close>: "RemoteKernel ... already exists and 'overwrite' not set";
  \<^item> \<open>Exception_exists_on_remote\<close>: "Kernel ... exists on remote and 'overwrite' not set";
  \<^item> \<open>Exception_not_in_local_config\<close>: "RemoteKernel ... not in local config";
  \<^item> \<open>SSHException\<close>: \<open>sshclient.connect\<close> failed;
  \<^item> \<open>FileNotFoundError\<close>, \<open>PermissionError\<close>: \<open>open\<close> of the kernels file failed;
  \<^item> \<open>JSONDecodeError\<close>: \<open>json.load\<close> failed;
  \<^item> \<open>AttributeError\<close>, \<open>TypeError\<close>, \<open>KeyError\<close>: the interpreter's own errors.
\<close>

datatype error =
    ValueError
  | Exception_already_exists
  | Exception_exists_on_remote
  | Exception_not_in_local_config
  | SSHException
  | FileNotFoundError
  | PermissionError
  | JSONDecodeError
  | AttributeError
  | TypeError
  | KeyError

text \<open>Truthiness (\<open>if x:\<close>, \<open>not x\<close>): \<open>None\<close> and the empty string are false.\<close>

fun truthy :: "pyval \<Rightarrow> bool" where
  "truthy None = False"
| "truthy (Some s) = (s \<noteq> [])"

text \<open>\<open>x or d\<close> for a string default \<open>d\<close>.\<close>

fun or_default :: "pyval \<Rightarrow> string \<Rightarrow> string" where
  "or_default None d = d"
| "or_default (Some s) d = (if s = [] then d else s)"

text \<open>\<open>str(x)\<close>, as \<open>format\<close> applies it to a field.\<close>

fun py_str :: "pyval \<Rightarrow> string" where
  "py_str None = ''None''"
| "py_str (Some s) = s"

section \<open>RemoteKernel\<close>

text \<open>
  An object of class \<open>RemoteKernel\<close> exists only when \<open>__init__\<close> returned, and then
  \<open>uri\<close>, \<open>rk_id\<close> and \<open>python_cmd\<close> are the strings that were passed in and
  \<open>display_name\<close> is a string; \<open>venv_name\<close> is whatever was passed, \<open>None\<close> included.
\<close>

record RemoteKernel =
  rk_id :: string
  uri :: string
  python_cmd :: string
  venv_name :: pyval
  display_name :: string

text \<open>
  \<open>RemoteKernel.__init__(uri, rk_id, venv, python_cmd, display_name)\<close>. The defaults
  \<open>venv=None\<close>, \<open>python_cmd='python'\<close>, \<open>display_name=None\<close> are the caller's to pass.
  The display name is computed before the check, from fields that may be \<open>None\<close>;
  it is kept only when the check passes.
\<close>

definition RemoteKernel_init ::
  "pyval \<Rightarrow> pyval \<Rightarrow> pyval \<Rightarrow> pyval \<Rightarrow> pyval \<Rightarrow> error + RemoteKernel" where
  "RemoteKernel_init uri_arg rk_id_arg venv python_cmd_arg display_name_arg =
     (let dn = (if truthy display_name_arg then py_str display_name_arg
                else py_str uri_arg @ '' :: '' @ py_str rk_id_arg)
      in if \<not> truthy uri_arg \<or> \<not> truthy rk_id_arg \<or> \<not> truthy python_cmd_arg
         then Inl ValueError
         else Inr \<lparr>rk_id = py_str rk_id_arg, uri = py_str uri_arg,
                   python_cmd = py_str python_cmd_arg, venv_name = venv,
                   display_name = dn\<rparr>)"

text \<open>\<open>RemoteKernel.__eq__\<close>; the \<open>isinstance\<close> test is the type.\<close>

definition RemoteKernel_eq :: "RemoteKernel \<Rightarrow> RemoteKernel \<Rightarrow> bool" where
  "RemoteKernel_eq self other \<longleftrightarrow>
     uri self = uri other \<and> venv_name self = venv_name other
     \<and> python_cmd self = python_cmd other"

section \<open>The kernels file\<close>

text \<open>
  \<open>json.load\<close> and \<open>json.dump\<close> belong to Python's library. The file is modelled by
  what \<open>json.load\<close> makes of it: it is missing, it cannot be opened, it is not JSON,
  or it holds a value. The values are those the module itself writes and whatever it
  can make of them: a field is a string or \<open>null\<close>; an entry of the top-level object is
  a record (an object of fields) or, after \<open>remove\<close> has written a record in place of
  the mapping, a bare field; the document is an object of entries or, after a second
  such \<open>remove\<close>, a bare field. Numbers, booleans, arrays and deeper nesting are
  never written by the module and are outside the model. An object is the list of its
  items in the order Python's \<open>dict\<close> keeps them.
\<close>

datatype entry =
    EScalar pyval
  | ERec "(string \<times> pyval) list"

datatype top =
    TScalar pyval
  | TDict "(string \<times> entry) list"

datatype file_state =
    Missing
  | Unreadable
  | NotJson
  | Json top

text \<open>
  \<open>RKManager.__get_local_kernelspec_dict\<close>: \<open>open(path, 'r')\<close>, then \<open>json.load\<close>.
  Nothing is caught.
\<close>

fun get_local_kernelspec_dict :: "file_state \<Rightarrow> error + top" where
  "get_local_kernelspec_dict Missing = Inl FileNotFoundError"
| "get_local_kernelspec_dict Unreadable = Inl PermissionError"
| "get_local_kernelspec_dict NotJson = Inl JSONDecodeError"
| "get_local_kernelspec_dict (Json kernels_dict) = Inr kernels_dict"

text \<open>\<open>y['remote_host']\<close>: a string or \<open>None\<close> is not subscriptable by a string key.\<close>

fun entry_getitem :: "entry \<Rightarrow> string \<Rightarrow> error + pyval" where
  "entry_getitem (EScalar v) key = Inl TypeError"
| "entry_getitem (ERec r) key =
     (case map_of r key of None \<Rightarrow> Inl KeyError | Some v \<Rightarrow> Inr v)"

text \<open>\<open>y.get('venv')\<close>: \<open>None\<close> when the key is absent.\<close>

fun entry_get :: "entry \<Rightarrow> string \<Rightarrow> error + pyval" where
  "entry_get (EScalar v) key = Inl AttributeError"
| "entry_get (ERec r) key =
     (case map_of r key of None \<Rightarrow> Inr None | Some v \<Rightarrow> Inr v)"

text \<open>
  The list comprehension of \<open>get_installed\<close>, item by item: the filter
  \<open>y['remote_host'] != uri\<close> first, then the arguments of \<open>RemoteKernel(...)\<close> from left
  to right, then the constructor. The first exception ends the comprehension.
\<close>

fun remote_kernels_of :: "pyval \<Rightarrow> (string \<times> entry) list \<Rightarrow> error + RemoteKernel list" where
  "remote_kernels_of filter_uri [] = Inr []"
| "remote_kernels_of filter_uri ((x, y) # items) =
     (case entry_getitem y ''remote_host'' of
        Inl e \<Rightarrow> Inl e
      | Inr host \<Rightarrow>
          if host \<noteq> filter_uri then
            (case entry_get y ''venv'' of
               Inl e \<Rightarrow> Inl e
             | Inr venv \<Rightarrow>
                 (case entry_get y ''interpreter'' of
                    Inl e \<Rightarrow> Inl e
                  | Inr interpreter \<Rightarrow>
                      (case RemoteKernel_init host (Some x) venv interpreter None of
                         Inl e \<Rightarrow> Inl e
                       | Inr k \<Rightarrow>
                           (case remote_kernels_of filter_uri items of
                              Inl e \<Rightarrow> Inl e
                            | Inr ks \<Rightarrow> Inr (k # ks)))))
          else remote_kernels_of filter_uri items)"

text \<open>
  \<open>RKManager.get_installed(uri)\<close>. \<open>kernels_dict.items()\<close> needs a \<open>dict\<close>.
\<close>

definition get_installed :: "pyval \<Rightarrow> file_state \<Rightarrow> error + RemoteKernel list" where
  "get_installed filter_uri f =
     (case get_local_kernelspec_dict f of
        Inl e \<Rightarrow> Inl e
      | Inr kernels_dict \<Rightarrow>
          (case kernels_dict of
             TScalar v \<Rightarrow> Inl AttributeError
           | TDict items \<Rightarrow> remote_kernels_of filter_uri items))"

section \<open>The session, the remote host and the local machine\<close>

text \<open>
  The SSH session, the remote host and \<open>subprocess.run\<close> are not code of the module.
  The remote host is a state of any type \<open>'r\<close> with the three capabilities the module
  uses: \<open>connect\<close> opens the session or raises, \<open>exec_command\<close> runs a shell command
  and returns what it wrote to stdout and stderr, \<open>put\<close> copies a file. The module
  checks no exit status, and a command that was started is taken to return.
  Every call is recorded in a trace, in order; a remote command is recorded with the
  name of the variable of the source that held it.
\<close>

datatype cmd_site =
    Cmd_does_venv_exist
  | Cmd_create_venv
  | Cmd_python_location
  | Cmd_install_ipython
  | Cmd_does_remote_kernel_exist
  | Cmd_create_ipy_kernel
  | Cmd_install_reqs

datatype event =
    Connect string string pyval
  | Exec cmd_site string
  | Put string string
  | Run "string list"

record 'r transport =
  ssh_connect :: "string \<Rightarrow> string \<Rightarrow> pyval \<Rightarrow> bool"
  ssh_exec_command :: "string \<Rightarrow> 'r \<Rightarrow> (string \<times> string) \<times> 'r"
  scp_put :: "string \<Rightarrow> string \<Rightarrow> 'r \<Rightarrow> 'r"

record 'r world =
  kernels_json :: file_state
  remote :: 'r
  trace :: "event list"

text \<open>\<open>RKManager.__execute_ssh\<close>: returns the pair \<open>(stdout, stderr)\<close>.\<close>

definition execute_ssh ::
  "'r transport \<Rightarrow> cmd_site \<Rightarrow> string \<Rightarrow> 'r world \<Rightarrow> (string \<times> string) \<times> 'r world" where
  "execute_ssh t site cmd w =
     (let (out, r) = ssh_exec_command t cmd (remote w)
      in (out, w\<lparr>remote := r, trace := trace w @ [Exec site cmd]\<rparr>))"

text \<open>
  \<open>subprocess.run(args)\<close> without \<open>check=True\<close>: the exit status is ignored. The
  program it starts, \<open>rk\<close>, reads the kernels file and does not write it.
\<close>

definition subprocess_run :: "string list \<Rightarrow> 'r world \<Rightarrow> 'r world" where
  "subprocess_run args w = w\<lparr>trace := trace w @ [Run args]\<rparr>"

text \<open>\<open>SCPClient(sshclient.get_transport()).put(local, remote)\<close>.\<close>

definition scp_put_file :: "'r transport \<Rightarrow> string \<Rightarrow> string \<Rightarrow> 'r world \<Rightarrow> 'r world" where
  "scp_put_file t local_path remote_path w =
     w\<lparr>remote := scp_put t local_path remote_path (remote w),
       trace := trace w @ [Put local_path remote_path]\<rparr>"

text \<open>
  \<open>RKManager.__run_remote\<close>: connect, then call \<open>func\<close>. A failed \<open>connect\<close> raises
  before \<open>func\<close> runs.
\<close>

definition run_remote ::
  "'r transport \<Rightarrow> ('r world \<Rightarrow> (error + unit) \<times> 'r world) \<Rightarrow> RemoteKernel \<Rightarrow> pyval \<Rightarrow> string
     \<Rightarrow> 'r world \<Rightarrow> (error + unit) \<times> 'r world" where
  "run_remote t func remotekernel ssh_key username w =
     (if ssh_connect t (uri remotekernel) username ssh_key
      then func (w\<lparr>trace := trace w @ [Connect (uri remotekernel) username ssh_key]\<rparr>)
      else (Inl SSHException, w))"

section \<open>Paths and strings\<close>

text \<open>\<open>os.path.join(a, b)\<close> on strings (\<open>posixpath\<close>).\<close>

definition path_join :: "string \<Rightarrow> string \<Rightarrow> string" where
  "path_join a b =
     (if take 1 b = ''/'' then b
      else if a = [] \<or> last a = CHR ''/'' then a @ b
      else a @ ''/'' @ b)"

text \<open>\<open>os.path.join(a, b)\<close> where \<open>a\<close> may be \<open>None\<close>: a \<open>TypeError\<close>.\<close>

fun os_path_join :: "pyval \<Rightarrow> string \<Rightarrow> error + string" where
  "os_path_join None b = Inl TypeError"
| "os_path_join (Some a) b = Inr (path_join a b)"

text \<open>
  \<open>x.split('\s')[0]\<close>. In the source \<open>'\s'\<close> is not a raw string and \<open>\s\<close> is no escape
  of Python, so the separator is the two characters backslash and \<open>s\<close>; the head of
  the split is the text before their first occurrence.
\<close>

fun split_head :: "string \<Rightarrow> string" where
  "split_head (c # d # cs) =
     (if c = CHR 0x5C \<and> d = CHR ''s'' then [] else c # split_head (d # cs))"
| "split_head cs = cs"

text \<open>\<open>stdout[1:]\<close> where \<open>stdout\<close> is the pair \<open>__execute_ssh\<close> returned.\<close>

definition tuple_from_1 :: "string \<times> string \<Rightarrow> string list" where
  "tuple_from_1 p = [snd p]"

text \<open>\<open>k in s\<close> for two strings: \<open>k\<close> occurs in \<open>s\<close>.\<close>

fun str_contains :: "string \<Rightarrow> string \<Rightarrow> bool" where
  "str_contains k [] = (k = [])"
| "str_contains k (c # cs) = (take (length k) (c # cs) = k \<or> str_contains k cs)"

section \<open>create\<close>

text \<open>
  The keyword arguments \<open>create\<close> reads: \<open>kwargs.get('overwrite')\<close> by its truth value,
  \<open>kwargs.get('remote_venv_root_dir')\<close> and \<open>kwargs.get('remote_username')\<close>.
\<close>

record kwargs =
  kw_overwrite :: bool
  kw_remote_venv_root_dir :: pyval
  kw_remote_username :: pyval

text \<open>
  The loop \<open>for dupe in duplicates\<close>; the last argument is the local variable
  \<open>overwrite\<close>.
\<close>

fun for_dupe :: "RemoteKernel list \<Rightarrow> RemoteKernel \<Rightarrow> bool \<Rightarrow> bool \<Rightarrow> error + bool" where
  "for_dupe [] remotekernel kw overwrite = Inr overwrite"
| "for_dupe (dupe # duplicates) remotekernel kw overwrite =
     (if rk_id dupe = rk_id remotekernel then
        (if kw then for_dupe duplicates remotekernel kw True
         else Inl Exception_already_exists)
      else for_dupe duplicates remotekernel kw overwrite)"

text \<open>
  The block "Check if kernel already exists on local": the list \<open>duplicates\<close> and the
  loop over it. It returns the local variable \<open>overwrite\<close>.
\<close>

definition check_exists_on_local ::
  "RemoteKernel list \<Rightarrow> RemoteKernel \<Rightarrow> kwargs \<Rightarrow> error + bool" where
  "check_exists_on_local rks remotekernel kwargs =
     (let duplicates = filter (\<lambda>x. RemoteKernel_eq x remotekernel) rks
      in if length duplicates > 0
         then for_dupe duplicates remotekernel (kw_overwrite kwargs) False
         else Inr False)"

text \<open>The block "Find/create venv on remote".\<close>

definition find_or_create_venv ::
  "'r transport \<Rightarrow> RemoteKernel \<Rightarrow> pyval \<Rightarrow> 'r world \<Rightarrow> 'r world" where
  "find_or_create_venv t remotekernel remote_venv_dir w =
     (if truthy (venv_name remotekernel) then
        (let cmd_does_venv_exist =
               ''[ -d '' @ py_str remote_venv_dir @ '' ] && echo '' @ [CHR 0x22] @ ''True''
                 @ [CHR 0x22];
             (out, w1) = execute_ssh t Cmd_does_venv_exist cmd_does_venv_exist w;
             stdout = fst out
         in if stdout = [] then
              (let cmd_create_venv =
                     ''virtualenv -p='' @ python_cmd remotekernel @ '' '' @ py_str remote_venv_dir
               in snd (execute_ssh t Cmd_create_venv cmd_create_venv w1))
            else w1)
      else w)"

text \<open>The block that sets \<open>sudo\<close>.\<close>

definition choose_sudo ::
  "'r transport \<Rightarrow> RemoteKernel \<Rightarrow> string \<Rightarrow> 'r world \<Rightarrow> string \<times> 'r world" where
  "choose_sudo t remotekernel remote_python_cmd w =
     (if \<not> truthy (venv_name remotekernel) then
        (let cmd_python_location = ''which '' @ remote_python_cmd;
             (out, w1) = execute_ssh t Cmd_python_location cmd_python_location w;
             py_location_stdout = fst out
         in (if take 4 py_location_stdout = ''/usr'' then ''sudo'' else [], w1))
      else ([], w))"

text \<open>The block "Install requirements file".\<close>

definition install_requirements ::
  "'r transport \<Rightarrow> pyval \<Rightarrow> pyval \<Rightarrow> string \<Rightarrow> string \<Rightarrow> 'r world
     \<Rightarrow> (error + unit) \<times> 'r world" where
  "install_requirements t requirements_file remote_venv_dir sudo remote_pip_cmd w =
     (if truthy requirements_file then
        (case os_path_join remote_venv_dir ''requirements.txt'' of
           Inl e \<Rightarrow> (Inl e, w)
         | Inr remote_requirements_file \<Rightarrow>
             (let w1 = scp_put_file t (py_str requirements_file) remote_requirements_file w;
                  cmd_install_reqs =
                    sudo @ '' '' @ remote_pip_cmd @ '' install -r '' @ remote_requirements_file
              in (Inr (), snd (execute_ssh t Cmd_install_reqs cmd_install_reqs w1))))
      else (Inr (), w))"

text \<open>\<open>kernel_dict[key] = value\<close>: a string or \<open>None\<close> supports no item assignment.\<close>

fun top_setitem :: "top \<Rightarrow> string \<Rightarrow> entry \<Rightarrow> error + top" where
  "top_setitem (TScalar v) key e = Inl TypeError"
| "top_setitem (TDict items) key e = Inr (TDict (AList.update key e items))"

text \<open>The record \<open>create\<close> stores under the kernel id.\<close>

definition kernel_record :: "RemoteKernel \<Rightarrow> string \<Rightarrow> entry" where
  "kernel_record remotekernel remote_username =
     ERec [(''display_name'', Some (display_name remotekernel)),
           (''interpreter'', Some (python_cmd remotekernel)),
           (''language'', Some ''python''),
           (''remote_host'', Some (remote_username @ ''@'' @ uri remotekernel)),
           (''venv'', venv_name remotekernel)]"

text \<open>
  The closure \<open>__create\<close> inside \<open>RKManager.create\<close>, with the variables it captures
  as arguments.
\<close>

definition inner_create ::
  "'r transport \<Rightarrow> RemoteKernel \<Rightarrow> pyval \<Rightarrow> kwargs \<Rightarrow> pyval \<Rightarrow> string \<Rightarrow> string \<Rightarrow> string \<Rightarrow> string
     \<Rightarrow> 'r world \<Rightarrow> (error + unit) \<times> 'r world" where
  "inner_create t remotekernel requirements_file kwargs remote_venv_dir remote_python_cmd
       remote_pip_cmd remote_jupyter_cmd remote_username w0 =
     (case get_installed None (kernels_json w0) of
        Inl e \<Rightarrow> (Inl e, w0)
      | Inr rks \<Rightarrow>
          (case check_exists_on_local rks remotekernel kwargs of
             Inl e \<Rightarrow> (Inl e, w0)
           | Inr overwrite \<Rightarrow>
                  (let w1 = find_or_create_venv t remotekernel remote_venv_dir w0;
                       (sudo, w2) = choose_sudo t remotekernel remote_python_cmd w1;
                       cmd_install_ipython = sudo @ '' '' @ remote_pip_cmd @ '' install jupyter'';
                       w3 = snd (execute_ssh t Cmd_install_ipython cmd_install_ipython w2);
                       cmd_does_remote_kernel_exist = remote_jupyter_cmd @ '' kernelspec list'';
                       (stdout, w4) =
                         execute_ssh t Cmd_does_remote_kernel_exist cmd_does_remote_kernel_exist w3
                   in if rk_id remotekernel \<in> set (map split_head (tuple_from_1 stdout))
                         \<and> \<not> kw_overwrite kwargs
                      then (Inl Exception_exists_on_remote, w4)
                      else
                        (let cmd_create_ipy_kernel =
                               sudo @ '' '' @ remote_python_cmd @ '' -m ipykernel install --name=''
                                 @ rk_id remotekernel;
                             w5 = snd (execute_ssh t Cmd_create_ipy_kernel cmd_create_ipy_kernel w4)
                         in case install_requirements t requirements_file remote_venv_dir sudo
                                   remote_pip_cmd w5 of
                              (Inl e, w6) \<Rightarrow> (Inl e, w6)
                            | (Inr u, w6) \<Rightarrow>
                                (case get_local_kernelspec_dict (kernels_json w6) of
                                   Inl e \<Rightarrow> (Inl e, w6)
                                 | Inr kernel_dict \<Rightarrow>
                                     (case top_setitem kernel_dict (rk_id remotekernel)
                                             (kernel_record remotekernel remote_username) of
                                        Inl e \<Rightarrow> (Inl e, w6)
                                      | Inr kernel_dict' \<Rightarrow>
                                          (let w7 = w6\<lparr>kernels_json := Json kernel_dict'\<rparr>;
                                               w8 = (if overwrite
                                                     then subprocess_run
                                                            [''sudo'', ''rk'', ''uninstall'',
                                                             rk_id remotekernel] w7
                                                     else w7)
                                           in (Inr (),
                                               subprocess_run
                                                 [''sudo'', ''rk'', ''install'', rk_id remotekernel]
                                                 w8))))))))"

text \<open>\<open>RKManager.create(remotekernel, ssh_key, requirements_file, **kwargs)\<close>.\<close>

definition create ::
  "'r transport \<Rightarrow> RemoteKernel \<Rightarrow> pyval \<Rightarrow> pyval \<Rightarrow> kwargs \<Rightarrow> 'r world
     \<Rightarrow> (error + unit) \<times> 'r world" where
  "create t remotekernel ssh_key requirements_file kwargs =
     (let remote_venv_dir =
            (if truthy (venv_name remotekernel)
             then Some (path_join (or_default (kw_remote_venv_root_dir kwargs) ''~/'')
                          (py_str (venv_name remotekernel)))
             else None);
          remote_bin_dir = or_default remote_venv_dir [];
          remote_python_cmd = path_join remote_bin_dir ''python'';
          remote_pip_cmd = path_join remote_bin_dir ''pip'';
          remote_jupyter_cmd = path_join remote_bin_dir ''jupyter'';
          remote_username = or_default (kw_remote_username kwargs) ''ubuntu''
      in run_remote t
           (inner_create t remotekernel requirements_file kwargs remote_venv_dir
              remote_python_cmd remote_pip_cmd remote_jupyter_cmd remote_username)
           remotekernel ssh_key remote_username)"

section \<open>remove\<close>

text \<open>
  \<open>key not in kernel_dict\<close>, as \<open>key in kernel_dict\<close>: membership among the keys of a
  \<open>dict\<close>, occurrence in a string, a \<open>TypeError\<close> on \<open>None\<close>.
\<close>

fun top_contains :: "string \<Rightarrow> top \<Rightarrow> error + bool" where
  "top_contains key (TScalar None) = Inl TypeError"
| "top_contains key (TScalar (Some s)) = Inr (str_contains key s)"
| "top_contains key (TDict items) = Inr (key \<in> set (map fst items))"

text \<open>
  \<open>kernel_dict.pop(key)\<close>: the value that was stored under \<open>key\<close>. The dictionary it
  was taken from is not used again.
\<close>

fun top_pop :: "top \<Rightarrow> string \<Rightarrow> error + entry" where
  "top_pop (TScalar v) key = Inl AttributeError"
| "top_pop (TDict items) key =
     (case map_of items key of None \<Rightarrow> Inl KeyError | Some e \<Rightarrow> Inr e)"

text \<open>What the file holds after \<open>json.dump(new_kd, new_ks)\<close> of an entry.\<close>

fun dumped :: "entry \<Rightarrow> top" where
  "dumped (EScalar v) = TScalar v"
| "dumped (ERec r) = TDict (map (\<lambda>(key, v). (key, EScalar v)) r)"

text \<open>The closure \<open>__remove\<close> inside \<open>RKManager.remove\<close>.\<close>

definition inner_remove :: "RemoteKernel \<Rightarrow> 'r world \<Rightarrow> (error + unit) \<times> 'r world" where
  "inner_remove remotekernel w =
     (case get_local_kernelspec_dict (kernels_json w) of
        Inl e \<Rightarrow> (Inl e, w)
      | Inr kernel_dict \<Rightarrow>
          (case top_contains (rk_id remotekernel) kernel_dict of
             Inl e \<Rightarrow> (Inl e, w)
           | Inr present \<Rightarrow>
               if \<not> present then (Inl Exception_not_in_local_config, w)
               else
                 (let w1 = subprocess_run [''sudo'', ''rk'', ''uninstall'', rk_id remotekernel] w
                  in case top_pop kernel_dict (rk_id remotekernel) of
                       Inl e \<Rightarrow> (Inl e, w1)
                     | Inr new_kd \<Rightarrow> (Inr (), w1\<lparr>kernels_json := Json (dumped new_kd)\<rparr>))))"

text \<open>
  \<open>RKManager.remove(remotekernel, ssh_key, **kwargs)\<close>; the session user is the
  default of \<open>__run_remote\<close>.
\<close>

definition remove ::
  "'r transport \<Rightarrow> RemoteKernel \<Rightarrow> pyval \<Rightarrow> 'r world \<Rightarrow> (error + unit) \<times> 'r world" where
  "remove t remotekernel ssh_key =
     run_remote t (inner_remove remotekernel) remotekernel ssh_key ''ubuntu''"

section \<open>Example environments\<close>

text \<open>A host that accepts every session and whose commands print nothing.\<close>

definition quiet_transport :: "unit transport" where
  "quiet_transport =
     \<lparr>ssh_connect = (\<lambda>host username key. True),
      ssh_exec_command = (\<lambda>cmd r. (([], []), r)),
      scp_put = (\<lambda>local_path remote_path r. r)\<rparr>"

text \<open>A kernels file with two records, as two runs of \<open>create\<close> leave it.\<close>

definition two_kernels :: top where
  "two_kernels =
     TDict [(''k1'', ERec [(''display_name'', Some ''10.0.0.5 :: k1''),
                           (''interpreter'', Some ''python3.8''),
                           (''language'', Some ''python''),
                           (''remote_host'', Some ''ubuntu@10.0.0.5''),
                           (''venv'', Some ''envA'')]),
            (''k2'', ERec [(''display_name'', Some ''10.0.0.6 :: k2''),
                           (''interpreter'', Some ''python3''),
                           (''language'', Some ''python''),
                           (''remote_host'', Some ''ubuntu@10.0.0.6''),
                           (''venv'', None)])]"

text \<open>
  A host with one directory that may exist, \<open>~/envA\<close>: the state says whether it does.
  The probe of \<open>create\<close> prints \<open>True\<close> when it exists, \<open>virtualenv\<close> creates it, and
  every other command prints nothing.
\<close>

definition venv_transport :: "bool transport" where
  "venv_transport =
     \<lparr>ssh_connect = (\<lambda>host username key. True),
      ssh_exec_command =
        (\<lambda>cmd exists.
           if cmd = ''[ -d ~/envA ] && echo '' @ [CHR 0x22] @ ''True'' @ [CHR 0x22]
           then ((if exists then ''True'' @ [CHR 0x0A] else [], []), exists)
           else if cmd = ''virtualenv -p=python3.8 ~/envA'' then (([], []), True)
           else (([], []), exists)),
      scp_put = (\<lambda>local_path remote_path exists. exists)\<rparr>"

section \<open>Reading the trace\<close>

fun is_exec_at :: "cmd_site \<Rightarrow> event \<Rightarrow> bool" where
  "is_exec_at site (Exec s cmd) = (s = site)"
| "is_exec_at site ev = False"

fun is_put :: "event \<Rightarrow> bool" where
  "is_put (Put local_path remote_path) = True"
| "is_put ev = False"

text \<open>
  What \<open>jupyter kernelspec list\<close> prints on a host where the kernels \<open>k1\<close> and
  \<open>python3\<close> are registered, and on a host where only \<open>python3\<close> is.
\<close>

definition listing_with_k1 :: string where
  "listing_with_k1 =
     ''Available kernels:'' @ [CHR 0x0A]
     @ ''  k1         /home/ubuntu/.local/share/jupyter/kernels/k1'' @ [CHR 0x0A]
     @ ''  python3    /usr/local/share/jupyter/kernels/python3'' @ [CHR 0x0A]"

definition listing_without_k1 :: string where
  "listing_without_k1 =
     ''Available kernels:'' @ [CHR 0x0A]
     @ ''  python3    /usr/local/share/jupyter/kernels/python3'' @ [CHR 0x0A]"

text \<open>
  A host on which \<open>~/envA/jupyter kernelspec list\<close> writes \<open>out\<close> to stdout and \<open>err\<close>
  to stderr, and every other command prints nothing.
\<close>

definition listing_transport :: "string \<Rightarrow> string \<Rightarrow> unit transport" where
  "listing_transport out err =
     \<lparr>ssh_connect = (\<lambda>host username key. True),
      ssh_exec_command =
        (\<lambda>cmd r. if cmd = ''~/envA/jupyter kernelspec list'' then ((out, err), r)
                  else (([], []), r)),
      scp_put = (\<lambda>local_path remote_path r. r)\<rparr>"

section \<open>Properties of RemoteKernel\<close>

text \<open>
  C6. Constructing a RemoteKernel raises ValueError exactly when the host, the kernel
  id or the interpreter command is empty (the empty string or None); when all three are
  non-empty it returns an object that holds them.
\<close>

theorem RemoteKernel_init_validation:
  "(RemoteKernel_init u k v p dn = Inl ValueError
      \<longleftrightarrow> \<not> (truthy u \<and> truthy k \<and> truthy p))
   \<and> ((\<exists>d. RemoteKernel_init u k v p dn = Inr d
            \<and> Some (uri d) = u \<and> Some (rk_id d) = k \<and> Some (python_cmd d) = p
            \<and> venv_name d = v)
      \<longleftrightarrow> (truthy u \<and> truthy k \<and> truthy p))"
  by (cases u; cases k; cases p) (auto simp: RemoteKernel_init_def Let_def)

theorem RemoteKernel_init_validation_witness:
  "RemoteKernel_init (Some '''') (Some ''k1'') None (Some ''python'') None = Inl ValueError
   \<and> RemoteKernel_init (Some ''h'') None None (Some ''python'') None = Inl ValueError
   \<and> RemoteKernel_init (Some ''h'') (Some ''k1'') None (Some '''') None = Inl ValueError
   \<and> (\<exists>d. RemoteKernel_init (Some ''h'') (Some ''k1'') None (Some ''python'') None = Inr d
          \<and> uri d = ''h'' \<and> rk_id d = ''k1'' \<and> python_cmd d = ''python'')"
  using RemoteKernel_init_validation [of "Some ''''" "Some ''k1''" None "Some ''python''" None]
    RemoteKernel_init_validation [of "Some ''h''" None None "Some ''python''" None]
    RemoteKernel_init_validation [of "Some ''h''" "Some ''k1''" None "Some ''''" None]
    RemoteKernel_init_validation [of "Some ''h''" "Some ''k1''" None "Some ''python''" None]
  by auto

text \<open>
  C7. Two RemoteKernels are equal exactly when uri, venv_name and python_cmd agree;
  the relation is reflexive, symmetric and transitive, and changing only rk_id or
  display_name of either side does not change it.
\<close>

theorem RemoteKernel_eq_equivalence:
  "(RemoteKernel_eq a b \<longleftrightarrow>
      (uri a, venv_name a, python_cmd a) = (uri b, venv_name b, python_cmd b))
   \<and> RemoteKernel_eq a a
   \<and> (RemoteKernel_eq a b \<longrightarrow> RemoteKernel_eq b a)
   \<and> (RemoteKernel_eq a b \<and> RemoteKernel_eq b c \<longrightarrow> RemoteKernel_eq a c)
   \<and> RemoteKernel_eq (a\<lparr>rk_id := k, display_name := n\<rparr>) b = RemoteKernel_eq a b
   \<and> RemoteKernel_eq a (b\<lparr>rk_id := k, display_name := n\<rparr>) = RemoteKernel_eq a b"
  by (auto simp: RemoteKernel_eq_def)

theorem RemoteKernel_eq_equivalence_witness:
  "RemoteKernel_eq
     \<lparr>rk_id = ''k1'', uri = ''h'', python_cmd = ''python3'', venv_name = Some ''env'',
      display_name = ''one''\<rparr>
     \<lparr>rk_id = ''k2'', uri = ''h'', python_cmd = ''python3'', venv_name = Some ''env'',
      display_name = ''two''\<rparr>
   \<and> RemoteKernel_eq
     \<lparr>rk_id = ''k2'', uri = ''h'', python_cmd = ''python3'', venv_name = Some ''env'',
      display_name = ''two''\<rparr>
     \<lparr>rk_id = ''k1'', uri = ''h'', python_cmd = ''python3'', venv_name = Some ''env'',
      display_name = ''one''\<rparr>
   \<and> \<not> RemoteKernel_eq
     \<lparr>rk_id = ''k1'', uri = ''h'', python_cmd = ''python3'', venv_name = Some ''env'',
      display_name = ''one''\<rparr>
     \<lparr>rk_id = ''k1'', uri = ''h'', python_cmd = ''python3'', venv_name = None,
      display_name = ''one''\<rparr>"
  using RemoteKernel_eq_equivalence
    [of "\<lparr>rk_id = ''k1'', uri = ''h'', python_cmd = ''python3'', venv_name = Some ''env'',
          display_name = ''one''\<rparr>"
        "\<lparr>rk_id = ''k2'', uri = ''h'', python_cmd = ''python3'', venv_name = Some ''env'',
          display_name = ''two''\<rparr>"]
    RemoteKernel_eq_equivalence
    [of "\<lparr>rk_id = ''k1'', uri = ''h'', python_cmd = ''python3'', venv_name = Some ''env'',
          display_name = ''one''\<rparr>"
        "\<lparr>rk_id = ''k1'', uri = ''h'', python_cmd = ''python3'', venv_name = None,
          display_name = ''one''\<rparr>"]
  by simp

section \<open>Properties of the kernels file\<close>

text \<open>
  C9. Loading the kernels file raises when the file is missing (FileNotFoundError),
  cannot be read (PermissionError) or is not JSON (JSONDecodeError); these are the
  errors the specification calls ManifestUnreadable. It returns a value only when the
  file holds one, and then it is the whole value of the file: no empty mapping stands
  in for a file that could not be loaded.
\<close>

theorem get_local_kernelspec_dict_fatal:
  "get_local_kernelspec_dict Missing = Inl FileNotFoundError
   \<and> get_local_kernelspec_dict Unreadable = Inl PermissionError
   \<and> get_local_kernelspec_dict NotJson = Inl JSONDecodeError
   \<and> (get_local_kernelspec_dict f = Inr kernels_dict \<longleftrightarrow> f = Json kernels_dict)
   \<and> (f \<in> {Missing, Unreadable, NotJson} \<longrightarrow>
        get_local_kernelspec_dict f \<in> Inl ` {FileNotFoundError, PermissionError, JSONDecodeError})"
  by (cases f) auto

theorem get_local_kernelspec_dict_fatal_witness:
  "get_local_kernelspec_dict Missing \<noteq> Inr (TDict [])
   \<and> get_local_kernelspec_dict NotJson \<in> Inl ` {FileNotFoundError, PermissionError, JSONDecodeError}
   \<and> get_local_kernelspec_dict (Json (TDict [(''k1'', ERec [(''remote_host'', Some ''ubuntu@h'')])]))
       = Inr (TDict [(''k1'', ERec [(''remote_host'', Some ''ubuntu@h'')])])"
  using get_local_kernelspec_dict_fatal [of Missing "TDict []"]
    get_local_kernelspec_dict_fatal [of NotJson "TDict []"]
    get_local_kernelspec_dict_fatal
      [of "Json (TDict [(''k1'', ERec [(''remote_host'', Some ''ubuntu@h'')])])"
          "TDict [(''k1'', ERec [(''remote_host'', Some ''ubuntu@h'')])]"]
  by simp

section \<open>Properties of remove\<close>

text \<open>
  C8. When the kernels file holds a mapping in which the kernel id of the descriptor is
  not a key, remove raises the exception "not in local config" (NotFoundError in the
  specification) as soon as the session is open, and SSHException when the session
  cannot be opened; in both cases the kernels file and the remote host are as before
  and no local command has been run.
\<close>

theorem remove_absent_id:
  assumes "kernels_json w = Json (TDict items)"
    and "rk_id d \<notin> set (map fst items)"
  shows "fst (remove t d ssh_key w) =
           Inl (if ssh_connect t (uri d) ''ubuntu'' ssh_key
                then Exception_not_in_local_config else SSHException)
         \<and> kernels_json (snd (remove t d ssh_key w)) = kernels_json w
         \<and> remote (snd (remove t d ssh_key w)) = remote w
         \<and> (\<forall>args. Run args \<in> set (trace (snd (remove t d ssh_key w)))
               \<longrightarrow> Run args \<in> set (trace w))"
  using assms by (simp add: remove_def run_remote_def inner_remove_def)

theorem remove_absent_id_witness:
  "fst (remove quiet_transport
          \<lparr>rk_id = ''k3'', uri = ''10.0.0.5'', python_cmd = ''python3'', venv_name = None,
           display_name = ''10.0.0.5 :: k3''\<rparr> None
          \<lparr>kernels_json = Json two_kernels, remote = (), trace = []\<rparr>)
     = Inl Exception_not_in_local_config
   \<and> kernels_json (snd (remove quiet_transport
          \<lparr>rk_id = ''k3'', uri = ''10.0.0.5'', python_cmd = ''python3'', venv_name = None,
           display_name = ''10.0.0.5 :: k3''\<rparr> None
          \<lparr>kernels_json = Json two_kernels, remote = (), trace = []\<rparr>))
       = Json two_kernels"
proof -
  let ?d = "\<lparr>rk_id = ''k3'', uri = ''10.0.0.5'', python_cmd = ''python3'', venv_name = None,
             display_name = ''10.0.0.5 :: k3''\<rparr>"
  let ?w = "\<lparr>kernels_json = Json two_kernels, remote = (), trace = []\<rparr>"
  obtain items where items: "two_kernels = TDict items" and absent: "''k3'' \<notin> set (map fst items)"
    by (simp add: two_kernels_def)
  have h1: "kernels_json ?w = Json (TDict items)" by (simp add: items)
  have h2: "rk_id ?d \<notin> set (map fst items)" using absent by simp
  show ?thesis
    using remove_absent_id [OF h1 h2, of quiet_transport None]
    by (simp add: quiet_transport_def)
qed

text \<open>
  C1 (the code departs from it). The claim: after remove of a kernel id that is in the
  kernels file, the file holds every other id and not the removed one. The code writes
  \<open>kernel_dict.pop(rk_id)\<close>, which is the record that was removed, not the mapping that
  is left. From a file with the ids k1 and k2, remove of k1 returns normally and
  leaves a file whose object is the record of k1; k2, which was in the file, is gone.
\<close>

theorem remove_keeps_only_removed_record:
  "remove quiet_transport
     \<lparr>rk_id = ''k1'', uri = ''10.0.0.5'', python_cmd = ''python3.8'', venv_name = Some ''envA'',
      display_name = ''10.0.0.5 :: k1''\<rparr> None
     \<lparr>kernels_json = Json two_kernels, remote = (), trace = []\<rparr>
   = (Inr (),
      \<lparr>kernels_json =
         Json (TDict [(''display_name'', EScalar (Some ''10.0.0.5 :: k1'')),
                      (''interpreter'', EScalar (Some ''python3.8'')),
                      (''language'', EScalar (Some ''python'')),
                      (''remote_host'', EScalar (Some ''ubuntu@10.0.0.5'')),
                      (''venv'', EScalar (Some ''envA''))]),
       remote = (),
       trace = [Connect ''10.0.0.5'' ''ubuntu'' None, Run [''sudo'', ''rk'', ''uninstall'', ''k1'']]\<rparr>)
   \<and> top_contains ''k2'' two_kernels = Inr True
   \<and> top_contains ''k2''
        (TDict [(''display_name'', EScalar (Some ''10.0.0.5 :: k1'')),
                (''interpreter'', EScalar (Some ''python3.8'')),
                (''language'', EScalar (Some ''python'')),
                (''remote_host'', EScalar (Some ''ubuntu@10.0.0.5'')),
                (''venv'', EScalar (Some ''envA''))]) = Inr False"
  by (simp add: remove_def run_remote_def inner_remove_def quiet_transport_def two_kernels_def
      subprocess_run_def)

section \<open>Properties of create\<close>

lemma written_host_differs: "username @ ''@'' @ host \<noteq> host"
proof
  assume "username @ ''@'' @ host = host"
  then have "length (username @ ''@'' @ host) = length host" by simp
  then show False by simp
qed

lemma local_check_passes_on_written:
  assumes "uri d \<noteq> []" and "rk_id d \<noteq> []" and "python_cmd d \<noteq> []"
  shows "\<exists>x. get_installed None (Json (TDict [(rk_id d, kernel_record d username)])) = Inr [x]
             \<and> uri x = username @ ''@'' @ uri d
             \<and> \<not> RemoteKernel_eq x d
             \<and> check_exists_on_local [x] d kwargs = Inr False"
  using assms
  by (simp add: get_installed_def kernel_record_def RemoteKernel_init_def
      check_exists_on_local_def RemoteKernel_eq_def written_host_differs)

text \<open>
  C3 (the code departs from it). The claim: when the kernels file already holds the
  record of the new descriptor under its kernel id, create without overwrite raises
  "already exists and 'overwrite' not set" (AlreadyExistsError in the specification)
  and leaves the kernels file as it was. The local check compares the new descriptor
  with what get_installed lists, and get_installed lists the stored \<open>user@uri\<close> as
  uri, so the record that create wrote for a descriptor is never equal to that
  descriptor. On the kernels file that create of k1 on host 10.0.0.5 leaves behind,
  a second create of the same descriptor without overwrite raises nothing: the local
  check returns, every remote command is issued again, the kernel is registered again
  and \<open>rk install\<close> is run again.
\<close>

theorem create_again_without_overwrite:
  "fst (create quiet_transport
          \<lparr>rk_id = ''k1'', uri = ''10.0.0.5'', python_cmd = ''python3.8'', venv_name = Some ''envA'',
           display_name = ''10.0.0.5 :: k1''\<rparr> None None
          \<lparr>kw_overwrite = False, kw_remote_venv_root_dir = None, kw_remote_username = None\<rparr>
          \<lparr>kernels_json =
             Json (TDict [(''k1'', ERec [(''display_name'', Some ''10.0.0.5 :: k1''),
                                         (''interpreter'', Some ''python3.8''),
                                         (''language'', Some ''python''),
                                         (''remote_host'', Some ''ubuntu@10.0.0.5''),
                                         (''venv'', Some ''envA'')])]),
           remote = (), trace = []\<rparr>) = Inr ()
   \<and> filter (\<lambda>ev. is_exec_at Cmd_create_ipy_kernel ev \<or> ev = Run [''sudo'', ''rk'', ''install'', ''k1''])
        (trace (snd (create quiet_transport
          \<lparr>rk_id = ''k1'', uri = ''10.0.0.5'', python_cmd = ''python3.8'', venv_name = Some ''envA'',
           display_name = ''10.0.0.5 :: k1''\<rparr> None None
          \<lparr>kw_overwrite = False, kw_remote_venv_root_dir = None, kw_remote_username = None\<rparr>
          \<lparr>kernels_json =
             Json (TDict [(''k1'', ERec [(''display_name'', Some ''10.0.0.5 :: k1''),
                                         (''interpreter'', Some ''python3.8''),
                                         (''language'', Some ''python''),
                                         (''remote_host'', Some ''ubuntu@10.0.0.5''),
                                         (''venv'', Some ''envA'')])]),
           remote = (), trace = []\<rparr>)))
      = [Exec Cmd_create_ipy_kernel '' ~/envA/python -m ipykernel install --name=k1'',
         Run [''sudo'', ''rk'', ''install'', ''k1'']]
   \<and> kernel_record
        \<lparr>rk_id = ''k1'', uri = ''10.0.0.5'', python_cmd = ''python3.8'', venv_name = Some ''envA'',
         display_name = ''10.0.0.5 :: k1''\<rparr> ''ubuntu''
      = ERec [(''display_name'', Some ''10.0.0.5 :: k1''),
              (''interpreter'', Some ''python3.8''),
              (''language'', Some ''python''),
              (''remote_host'', Some ''ubuntu@10.0.0.5''),
              (''venv'', Some ''envA'')]"
  by (simp add: create_def Let_def run_remote_def inner_create_def get_installed_def
      check_exists_on_local_def find_or_create_venv_def choose_sudo_def execute_ssh_def
      install_requirements_def path_join_def tuple_from_1_def quiet_transport_def
      subprocess_run_def kernel_record_def RemoteKernel_init_def RemoteKernel_eq_def)

subsection \<open>What each block does to the world\<close>

lemma execute_ssh_world:
  "trace (snd (execute_ssh t site cmd w)) = trace w @ [Exec site cmd]"
  "kernels_json (snd (execute_ssh t site cmd w)) = kernels_json w"
  "remote (snd (execute_ssh t site cmd w)) = snd (ssh_exec_command t cmd (remote w))"
  "fst (execute_ssh t site cmd w) = fst (ssh_exec_command t cmd (remote w))"
  by (simp_all add: execute_ssh_def split: prod.splits)

lemma find_or_create_venv_world:
  "kernels_json (find_or_create_venv t d dir w) = kernels_json w"
  "\<not> truthy (venv_name d) \<Longrightarrow> find_or_create_venv t d dir w = w"
  "truthy (venv_name d) \<Longrightarrow>
     trace (find_or_create_venv t d dir w) =
       trace w
       @ [Exec Cmd_does_venv_exist
            (''[ -d '' @ py_str dir @ '' ] && echo '' @ [CHR 0x22] @ ''True'' @ [CHR 0x22])]
       @ (if fst (fst (ssh_exec_command t
                    (''[ -d '' @ py_str dir @ '' ] && echo '' @ [CHR 0x22] @ ''True'' @ [CHR 0x22])
                    (remote w))) = []
          then [Exec Cmd_create_venv (''virtualenv -p='' @ python_cmd d @ '' '' @ py_str dir)]
          else [])"
  by (simp_all add: find_or_create_venv_def Let_def case_prod_beta execute_ssh_world)

lemma choose_sudo_world:
  "kernels_json (snd (choose_sudo t d py w)) = kernels_json w"
  "truthy (venv_name d) \<Longrightarrow> choose_sudo t d py w = ([], w)"
  "\<not> truthy (venv_name d) \<Longrightarrow>
     trace (snd (choose_sudo t d py w)) = trace w @ [Exec Cmd_python_location (''which '' @ py)]"
  by (simp_all add: choose_sudo_def Let_def case_prod_beta execute_ssh_world)

lemma install_requirements_no_venv:
  "truthy requirements_file \<Longrightarrow>
     install_requirements t requirements_file None sudo pip w = (Inl TypeError, w)"
  by (simp add: install_requirements_def)

lemma install_requirements_world:
  "kernels_json (snd (install_requirements t rf dir sudo pip w)) = kernels_json w"
  "filter (is_exec_at Cmd_create_venv) (trace (snd (install_requirements t rf dir sudo pip w)))
     = filter (is_exec_at Cmd_create_venv) (trace w)"
  "filter (is_exec_at Cmd_does_venv_exist) (trace (snd (install_requirements t rf dir sudo pip w)))
     = filter (is_exec_at Cmd_does_venv_exist) (trace w)"
  by (simp_all add: install_requirements_def Let_def scp_put_file_def execute_ssh_world
      split: sum.splits)

text \<open>
  C10. When create is given a requirements file and the descriptor has no venv name,
  create never returns normally, the kernels file is as before, and neither the copy
  of the requirements file nor the command that installs from it is issued. Whenever
  the run gets as far as registering the kernel on the remote host, which is the
  statement before the requirements block, the exception is the TypeError of
  \<open>os.path.join(None, 'requirements.txt')\<close>.
\<close>

theorem create_requirements_without_venv:
  assumes "truthy requirements_file" and "\<not> truthy (venv_name d)"
  shows "(\<exists>e. fst (create t d ssh_key requirements_file kwargs w) = Inl e)
         \<and> kernels_json (snd (create t d ssh_key requirements_file kwargs w)) = kernels_json w
         \<and> filter is_put (trace (snd (create t d ssh_key requirements_file kwargs w)))
             = filter is_put (trace w)
         \<and> filter (is_exec_at Cmd_install_reqs)
              (trace (snd (create t d ssh_key requirements_file kwargs w)))
             = filter (is_exec_at Cmd_install_reqs) (trace w)
         \<and> (filter (is_exec_at Cmd_create_ipy_kernel)
               (trace (snd (create t d ssh_key requirements_file kwargs w)))
               \<noteq> filter (is_exec_at Cmd_create_ipy_kernel) (trace w)
             \<longrightarrow> fst (create t d ssh_key requirements_file kwargs w) = Inl TypeError)"
  using assms
  by (simp add: create_def Let_def run_remote_def inner_create_def
      find_or_create_venv_world choose_sudo_world install_requirements_no_venv
      execute_ssh_world case_prod_beta split: sum.splits)

theorem create_requirements_without_venv_witness:
  "truthy (Some ''requirements.txt'')
   \<and> \<not> truthy (venv_name \<lparr>rk_id = ''k1'', uri = ''10.0.0.5'', python_cmd = ''python3'',
                          venv_name = None, display_name = ''10.0.0.5 :: k1''\<rparr>)
   \<and> create quiet_transport
        \<lparr>rk_id = ''k1'', uri = ''10.0.0.5'', python_cmd = ''python3'', venv_name = None,
         display_name = ''10.0.0.5 :: k1''\<rparr> None (Some ''requirements.txt'')
        \<lparr>kw_overwrite = False, kw_remote_venv_root_dir = None, kw_remote_username = None\<rparr>
        \<lparr>kernels_json = Json (TDict []), remote = (), trace = []\<rparr>
     = (Inl TypeError,
        \<lparr>kernels_json = Json (TDict []), remote = (),
         trace = [Connect ''10.0.0.5'' ''ubuntu'' None,
                  Exec Cmd_python_location ''which python'',
                  Exec Cmd_install_ipython '' pip install jupyter'',
                  Exec Cmd_does_remote_kernel_exist ''jupyter kernelspec list'',
                  Exec Cmd_create_ipy_kernel '' python -m ipykernel install --name=k1'']\<rparr>)"
proof -
  let ?d = "\<lparr>rk_id = ''k1'', uri = ''10.0.0.5'', python_cmd = ''python3'', venv_name = None,
             display_name = ''10.0.0.5 :: k1''\<rparr>"
  let ?kw = "\<lparr>kw_overwrite = False, kw_remote_venv_root_dir = None, kw_remote_username = None\<rparr>"
  let ?w = "\<lparr>kernels_json = Json (TDict []), remote = (), trace = []\<rparr> :: unit world"
  have h1: "truthy (Some ''requirements.txt'')" by simp
  have h2: "\<not> truthy (venv_name ?d)" by simp
  have run: "snd (create quiet_transport ?d None (Some ''requirements.txt'') ?kw ?w)
     = \<lparr>kernels_json = Json (TDict []), remote = (),
         trace = [Connect ''10.0.0.5'' ''ubuntu'' None,
                  Exec Cmd_python_location ''which python'',
                  Exec Cmd_install_ipython '' pip install jupyter'',
                  Exec Cmd_does_remote_kernel_exist ''jupyter kernelspec list'',
                  Exec Cmd_create_ipy_kernel '' python -m ipykernel install --name=k1'']\<rparr>"
    by (simp add: create_def Let_def run_remote_def inner_create_def get_installed_def
        check_exists_on_local_def find_or_create_venv_def choose_sudo_def execute_ssh_def
        install_requirements_def path_join_def tuple_from_1_def quiet_transport_def)
  from create_requirements_without_venv [OF h1 h2, of quiet_transport None ?kw ?w]
  have "fst (create quiet_transport ?d None (Some ''requirements.txt'') ?kw ?w) = Inl TypeError"
    by (simp add: run)
  with run h1 h2 show ?thesis
    by (simp add: prod_eq_iff)
qed

text \<open>
  C5. Let the descriptor have a venv name, and let the run reach the venv block: the
  session opens, the kernels file lists, and the local check raises nothing. Then
  create issues the existence probe \<open>[ -d dir ] && echo "True"\<close> once, and it issues
  \<open>virtualenv -p=python_cmd dir\<close> once when the probe printed nothing and not at all
  when it printed something; \<open>dir\<close> is the venv name joined onto the venv root. A
  second create on a host that now reports the directory therefore creates nothing.
\<close>

theorem create_venv_iff_absent:
  assumes "truthy (venv_name d)"
    and "ssh_connect t (uri d) (or_default (kw_remote_username kwargs) ''ubuntu'') ssh_key"
    and "get_installed None (kernels_json w) = Inr rks"
    and "check_exists_on_local rks d kwargs = Inr overwrite"
    and "dir = path_join (or_default (kw_remote_venv_root_dir kwargs) ''~/'') (py_str (venv_name d))"
    and "probe = ''[ -d '' @ dir @ '' ] && echo '' @ [CHR 0x22] @ ''True'' @ [CHR 0x22]"
  shows "filter (is_exec_at Cmd_does_venv_exist)
           (trace (snd (create t d ssh_key requirements_file kwargs w)))
         = filter (is_exec_at Cmd_does_venv_exist) (trace w) @ [Exec Cmd_does_venv_exist probe]
       \<and> filter (is_exec_at Cmd_create_venv)
           (trace (snd (create t d ssh_key requirements_file kwargs w)))
         = filter (is_exec_at Cmd_create_venv) (trace w)
           @ (if fst (fst (ssh_exec_command t probe (remote w))) = []
              then [Exec Cmd_create_venv (''virtualenv -p='' @ python_cmd d @ '' '' @ dir)]
              else [])"
  using assms
  by (simp add: create_def Let_def run_remote_def inner_create_def
      find_or_create_venv_world choose_sudo_world install_requirements_world
      execute_ssh_world subprocess_run_def case_prod_beta split: sum.splits)

theorem create_venv_iff_absent_witness:
  "filter (is_exec_at Cmd_create_venv)
     (trace (snd (create venv_transport
        \<lparr>rk_id = ''k1'', uri = ''10.0.0.5'', python_cmd = ''python3.8'', venv_name = Some ''envA'',
         display_name = ''10.0.0.5 :: k1''\<rparr> None None
        \<lparr>kw_overwrite = False, kw_remote_venv_root_dir = None, kw_remote_username = None\<rparr>
        \<lparr>kernels_json = Json (TDict []), remote = False, trace = []\<rparr>)))
     = [Exec Cmd_create_venv ''virtualenv -p=python3.8 ~/envA'']
   \<and> filter (is_exec_at Cmd_create_venv)
     (trace (snd (create venv_transport
        \<lparr>rk_id = ''k1'', uri = ''10.0.0.5'', python_cmd = ''python3.8'', venv_name = Some ''envA'',
         display_name = ''10.0.0.5 :: k1''\<rparr> None None
        \<lparr>kw_overwrite = False, kw_remote_venv_root_dir = None, kw_remote_username = None\<rparr>
        (snd (create venv_transport
           \<lparr>rk_id = ''k1'', uri = ''10.0.0.5'', python_cmd = ''python3.8'',
            venv_name = Some ''envA'', display_name = ''10.0.0.5 :: k1''\<rparr> None None
           \<lparr>kw_overwrite = False, kw_remote_venv_root_dir = None, kw_remote_username = None\<rparr>
           \<lparr>kernels_json = Json (TDict []), remote = False, trace = []\<rparr>)))))
     = [Exec Cmd_create_venv ''virtualenv -p=python3.8 ~/envA'']"
proof -
  let ?d = "\<lparr>rk_id = ''k1'', uri = ''10.0.0.5'', python_cmd = ''python3.8'',
             venv_name = Some ''envA'', display_name = ''10.0.0.5 :: k1''\<rparr>"
  let ?kw = "\<lparr>kw_overwrite = False, kw_remote_venv_root_dir = None, kw_remote_username = None\<rparr>"
  let ?w = "\<lparr>kernels_json = Json (TDict []), remote = False, trace = []\<rparr>"
  let ?dir = "''~/envA''"
  let ?probe = "''[ -d ~/envA ] && echo '' @ [CHR 0x22] @ ''True'' @ [CHR 0x22]"
  let ?w1 = "snd (create venv_transport ?d None None ?kw ?w)"
  have venv: "truthy (venv_name ?d)" by simp
  have conn: "ssh_connect venv_transport (uri ?d) (or_default (kw_remote_username ?kw) ''ubuntu'')
                None"
    by (simp add: venv_transport_def)
  have dir: "?dir = path_join (or_default (kw_remote_venv_root_dir ?kw) ''~/'')
                      (py_str (venv_name ?d))"
    by (simp add: path_join_def)
  have probe: "?probe = ''[ -d '' @ ?dir @ '' ] && echo '' @ [CHR 0x22] @ ''True'' @ [CHR 0x22]"
    by simp
  have listed: "get_installed None (kernels_json ?w) = Inr []"
    by (simp add: get_installed_def)
  have local: "check_exists_on_local [] ?d ?kw = Inr False"
    by (simp add: check_exists_on_local_def)
  have absent: "fst (fst (ssh_exec_command venv_transport ?probe False)) = []"
    and present: "fst (fst (ssh_exec_command venv_transport ?probe True)) \<noteq> []"
    by (simp_all add: venv_transport_def)
  have first: "filter (is_exec_at Cmd_create_venv) (trace ?w1)
                 = [Exec Cmd_create_venv ''virtualenv -p=python3.8 ~/envA'']"
    using create_venv_iff_absent [OF venv conn listed local dir probe, of None] absent
    by simp
  have file1: "kernels_json ?w1 = Json (TDict [(''k1'', kernel_record ?d ''ubuntu'')])"
    and remote1: "remote ?w1 = True"
    by (simp_all add: create_def Let_def run_remote_def inner_create_def get_installed_def
        check_exists_on_local_def find_or_create_venv_def choose_sudo_def execute_ssh_def
        install_requirements_def path_join_def tuple_from_1_def venv_transport_def
        subprocess_run_def)
  have listed1: "get_installed None (kernels_json ?w1)
                   = Inr [\<lparr>rk_id = ''k1'', uri = ''ubuntu@10.0.0.5'', python_cmd = ''python3.8'',
                         venv_name = Some ''envA'', display_name = ''ubuntu@10.0.0.5 :: k1''\<rparr>]"
    by (simp add: file1 get_installed_def kernel_record_def RemoteKernel_init_def)
  have local1: "check_exists_on_local
                  [\<lparr>rk_id = ''k1'', uri = ''ubuntu@10.0.0.5'', python_cmd = ''python3.8'',
                    venv_name = Some ''envA'', display_name = ''ubuntu@10.0.0.5 :: k1''\<rparr>]
                  ?d ?kw = Inr False"
    by (simp add: check_exists_on_local_def RemoteKernel_eq_def)
  have second: "filter (is_exec_at Cmd_create_venv)
                  (trace (snd (create venv_transport ?d None None ?kw ?w1)))
                 = [Exec Cmd_create_venv ''virtualenv -p=python3.8 ~/envA'']"
    using create_venv_iff_absent [OF venv conn listed1 local1 dir probe, of None] present
    by (simp add: first remote1)
  from first second show ?thesis by simp
qed

text \<open>
  C2 (the code departs from it). The claim: after a successful create of a descriptor,
  get_installed without a filter lists a descriptor with the same host, venv and
  interpreter under the same kernel id. The code stores \<open>remote_host\<close> as
  \<open>user@uri\<close> and get_installed passes the stored \<open>remote_host\<close> as \<open>uri\<close>. From an
  empty kernels file, create of the kernel k1 on host 10.0.0.5 returns normally, and
  get_installed then lists one descriptor, whose uri is ubuntu@10.0.0.5: it is not
  equal to the descriptor that was created, and a second create of the same
  descriptor without overwrite passes the local check and returns normally.
\<close>

theorem create_then_get_installed_host:
  "fst (create quiet_transport
          \<lparr>rk_id = ''k1'', uri = ''10.0.0.5'', python_cmd = ''python3.8'', venv_name = Some ''envA'',
           display_name = ''10.0.0.5 :: k1''\<rparr> None None
          \<lparr>kw_overwrite = False, kw_remote_venv_root_dir = None, kw_remote_username = None\<rparr>
          \<lparr>kernels_json = Json (TDict []), remote = (), trace = []\<rparr>) = Inr ()
   \<and> get_installed None
        (kernels_json (snd (create quiet_transport
          \<lparr>rk_id = ''k1'', uri = ''10.0.0.5'', python_cmd = ''python3.8'', venv_name = Some ''envA'',
           display_name = ''10.0.0.5 :: k1''\<rparr> None None
          \<lparr>kw_overwrite = False, kw_remote_venv_root_dir = None, kw_remote_username = None\<rparr>
          \<lparr>kernels_json = Json (TDict []), remote = (), trace = []\<rparr>)))
      = Inr [\<lparr>rk_id = ''k1'', uri = ''ubuntu@10.0.0.5'', python_cmd = ''python3.8'',
              venv_name = Some ''envA'', display_name = ''ubuntu@10.0.0.5 :: k1''\<rparr>]
   \<and> \<not> RemoteKernel_eq
         \<lparr>rk_id = ''k1'', uri = ''ubuntu@10.0.0.5'', python_cmd = ''python3.8'',
          venv_name = Some ''envA'', display_name = ''ubuntu@10.0.0.5 :: k1''\<rparr>
         \<lparr>rk_id = ''k1'', uri = ''10.0.0.5'', python_cmd = ''python3.8'', venv_name = Some ''envA'',
          display_name = ''10.0.0.5 :: k1''\<rparr>
   \<and> fst (create quiet_transport
          \<lparr>rk_id = ''k1'', uri = ''10.0.0.5'', python_cmd = ''python3.8'', venv_name = Some ''envA'',
           display_name = ''10.0.0.5 :: k1''\<rparr> None None
          \<lparr>kw_overwrite = False, kw_remote_venv_root_dir = None, kw_remote_username = None\<rparr>
          (snd (create quiet_transport
             \<lparr>rk_id = ''k1'', uri = ''10.0.0.5'', python_cmd = ''python3.8'',
              venv_name = Some ''envA'', display_name = ''10.0.0.5 :: k1''\<rparr> None None
             \<lparr>kw_overwrite = False, kw_remote_venv_root_dir = None, kw_remote_username = None\<rparr>
             \<lparr>kernels_json = Json (TDict []), remote = (), trace = []\<rparr>))) = Inr ()"
  by (simp add: create_def Let_def run_remote_def inner_create_def get_installed_def
      check_exists_on_local_def find_or_create_venv_def choose_sudo_def execute_ssh_def
      install_requirements_def path_join_def tuple_from_1_def quiet_transport_def
      subprocess_run_def kernel_record_def RemoteKernel_init_def RemoteKernel_eq_def)

text \<open>
  C4 (the code departs from it). The claim: create raises "exists on remote" exactly
  when the kernel id is among the kernels registered on the remote host and overwrite
  is not set. The code keeps the pair that \<open>__execute_ssh\<close> returns in \<open>stdout\<close>, so
  \<open>stdout[1:]\<close> is the one-element tuple holding stderr, and the id is compared with
  the text of stderr before the first backslash-s. On a host whose listing names k1,
  create of k1 without overwrite raises nothing and registers the kernel again; on a
  host whose listing does not name k1 but whose stderr is the text k1, create raises.
\<close>

theorem create_remote_check_reads_stderr:
  "fst (create (listing_transport listing_with_k1 [])
          \<lparr>rk_id = ''k1'', uri = ''10.0.0.5'', python_cmd = ''python3.8'', venv_name = Some ''envA'',
           display_name = ''10.0.0.5 :: k1''\<rparr> None None
          \<lparr>kw_overwrite = False, kw_remote_venv_root_dir = None, kw_remote_username = None\<rparr>
          \<lparr>kernels_json = Json (TDict []), remote = (), trace = []\<rparr>) = Inr ()
   \<and> filter (is_exec_at Cmd_create_ipy_kernel)
        (trace (snd (create (listing_transport listing_with_k1 [])
          \<lparr>rk_id = ''k1'', uri = ''10.0.0.5'', python_cmd = ''python3.8'', venv_name = Some ''envA'',
           display_name = ''10.0.0.5 :: k1''\<rparr> None None
          \<lparr>kw_overwrite = False, kw_remote_venv_root_dir = None, kw_remote_username = None\<rparr>
          \<lparr>kernels_json = Json (TDict []), remote = (), trace = []\<rparr>)))
      = [Exec Cmd_create_ipy_kernel '' ~/envA/python -m ipykernel install --name=k1'']
   \<and> fst (create (listing_transport listing_without_k1 ''k1'')
          \<lparr>rk_id = ''k1'', uri = ''10.0.0.5'', python_cmd = ''python3.8'', venv_name = Some ''envA'',
           display_name = ''10.0.0.5 :: k1''\<rparr> None None
          \<lparr>kw_overwrite = False, kw_remote_venv_root_dir = None, kw_remote_username = None\<rparr>
          \<lparr>kernels_json = Json (TDict []), remote = (), trace = []\<rparr>)
      = Inl Exception_exists_on_remote"
  by (simp add: create_def Let_def run_remote_def inner_create_def get_installed_def
      check_exists_on_local_def find_or_create_venv_def choose_sudo_def execute_ssh_def
      install_requirements_def path_join_def tuple_from_1_def listing_transport_def
      subprocess_run_def)

end
